theory Spec2Isabelle
  imports Main "HOL-Library.Sublist"
begin

section \<open>The packaging manifest \<^verbatim>\<open>setup.py\<close>\<close>

text \<open>
  The repository's only source file is its packaging manifest:
  \<^verbatim>\<open>
  from setuptools import setup, find_packages

  setup(
      name='vgpu_unlock',
      version='1.0.0',
      description='vGPU unlock script for consumer GPUs',
      author='D',
      packages=find_packages(),
      scripts=['scripts/vgpu-name.sh'],
      install_requires=['frida'],
      classifiers=[
          'License :: OSI Approved :: MIT License',
          'Programming Language :: Python :: 3',
          'Programming Language :: Python :: 3.9',
          'Programming Language :: Python :: 3.10',
          'Programming Language :: Python :: 3.11',
      ],
  )
  \<close>
  The module consists of one import and one expression statement, a call of \<open>setup\<close>
  with keyword arguments only. Seven arguments are string or list-of-string literals; the
  eighth is the result of calling \<open>find_packages()\<close>, which inspects the project tree.
\<close>

subsection \<open>Values and keyword arguments\<close>

text \<open>
  The values occurring in the call are Python strings and lists of strings. A call's keyword
  arguments are kept as an association list, in the order in which they are written.
\<close>

datatype pyval = Str string | StrList "string list"

type_synonym kwargs = "(string \<times> pyval) list"

text \<open>Reading a keyword argument of a given shape out of a call.\<close>

definition str_arg :: "string \<Rightarrow> kwargs \<Rightarrow> string option" where
  "str_arg key K = (case map_of K key of Some (Str s) \<Rightarrow> Some s | _ \<Rightarrow> None)"

definition list_arg :: "string \<Rightarrow> kwargs \<Rightarrow> string list option" where
  "list_arg key K = (case map_of K key of Some (StrList xs) \<Rightarrow> Some xs | _ \<Rightarrow> None)"

subsection \<open>The module\<close>

text \<open>
  \<open>setup_kwargs found\<close> is the argument list of the \<open>setup(...)\<close> call, where \<open>found\<close> is
  what \<open>find_packages()\<close> returned.
\<close>

definition setup_kwargs :: "string list \<Rightarrow> kwargs" where
  "setup_kwargs found =
     [(''name'', Str ''vgpu_unlock''),
      (''version'', Str ''1.0.0''),
      (''description'', Str ''vGPU unlock script for consumer GPUs''),
      (''author'', Str ''D''),
      (''packages'', StrList found),
      (''scripts'', StrList [''scripts/vgpu-name.sh'']),
      (''install_requires'', StrList [''frida'']),
      (''classifiers'', StrList
         [''License :: OSI Approved :: MIT License'',
          ''Programming Language :: Python :: 3'',
          ''Programming Language :: Python :: 3.9'',
          ''Programming Language :: Python :: 3.10'',
          ''Programming Language :: Python :: 3.11''])]"

text \<open>
  Evaluating the module. Both imported functions belong to setuptools, not to this
  repository: \<open>find_packages\<close> is a parameter, a function of the project tree \<open>tree\<close> in
  which the module is evaluated, and the effect of the module is the sequence of calls it
  makes to \<open>setup\<close>, each given by its keyword arguments. The arguments are evaluated
  (and so \<open>find_packages()\<close> is called) before \<open>setup\<close> is entered.
\<close>

definition setup_py :: "('tree \<Rightarrow> string list) \<Rightarrow> 'tree \<Rightarrow> kwargs list" where
  "setup_py find_packages tree = [setup_kwargs (find_packages tree)]"

subsection \<open>Version strings\<close>

text \<open>
  The format a version string is held to: three dot-separated components, each a non-empty
  run of decimal digits (\<open>major.minor.patch\<close>). \<open>split_on c s\<close> cuts \<open>s\<close> at every
  occurrence of \<open>c\<close>, keeping empty pieces, as Python's \<open>s.split(c)\<close> does.
\<close>

fun split_on :: "char \<Rightarrow> string \<Rightarrow> string list" where
  "split_on c [] = [[]]"
| "split_on c (x # xs) =
     (if x = c then [] # split_on c xs
      else (case split_on c xs of
              [] \<Rightarrow> [[x]]
            | w # ws \<Rightarrow> (x # w) # ws))"

definition is_digit :: "char \<Rightarrow> bool" where
  "is_digit c = (c \<in> set ''0123456789'')"

definition decimal_component :: "string \<Rightarrow> bool" where
  "decimal_component s = (s \<noteq> [] \<and> list_all is_digit s)"

definition version_format :: "string \<Rightarrow> bool" where
  "version_format v =
     (length (split_on CHR ''.'' v) = 3 \<and> list_all decimal_component (split_on CHR ''.'' v))"

subsection \<open>Classifier kinds\<close>

text \<open>
  A trove classifier is a path of words separated by \<open>::\<close>; its kind is decided by how the
  path starts.
\<close>

datatype classifier_kind = LicenseTag | PythonVersionTag | OtherTag

definition classifier_kind_of :: "string \<Rightarrow> classifier_kind" where
  "classifier_kind_of c =
     (if prefix ''License :: '' c then LicenseTag
      else if prefix ''Programming Language :: Python :: '' c then PythonVersionTag
      else OtherTag)"

subsection \<open>Requirement specifiers\<close>

text \<open>
  A requirement specifier starts with the distribution name, made of letters, digits and
  \<open>-\<close>, \<open>_\<close>, \<open>.\<close>; whatever follows the name (extras, version clauses, a URL, an
  environment marker) constrains the requirement. What a non-empty constraint means is the
  installer's business and is a parameter \<open>sat\<close> here; a specifier with no constraint text
  admits every version.
\<close>

definition name_char :: "char \<Rightarrow> bool" where
  "name_char c =
     (c \<in> set ''abcdefghijklmnopqrstuvwxyzABCDEFGHIJKLMNOPQRSTUVWXYZ0123456789-_.'')"

definition requirement_name :: "string \<Rightarrow> string" where
  "requirement_name r = takeWhile name_char r"

definition constraint_text :: "string \<Rightarrow> string" where
  "constraint_text r = dropWhile name_char r"

definition admits :: "(string \<Rightarrow> 'version \<Rightarrow> bool) \<Rightarrow> string \<Rightarrow> 'version \<Rightarrow> bool" where
  "admits sat r v = (if constraint_text r = [] then True else sat (constraint_text r) v)"

section \<open>Properties of the manifest\<close>

text \<open>
  Claim C1. The module calls \<open>setup\<close> once, and that call receives the name
  \<open>vgpu_unlock\<close>, the version \<open>1.0.0\<close>, the description
  \<open>vGPU unlock script for consumer GPUs\<close> and the author \<open>D\<close>, whatever the
  project tree and the package discovery are.
\<close>

theorem setup_metadata_literals:
  "map (\<lambda>K. (map_of K ''name'', map_of K ''version'', map_of K ''description'',
              map_of K ''author''))
       (setup_py find_packages tree)
   = [(Some (Str ''vgpu_unlock''), Some (Str ''1.0.0''),
       Some (Str ''vGPU unlock script for consumer GPUs''), Some (Str ''D''))]"
  by (simp add: setup_py_def setup_kwargs_def)

text \<open>
  Claim C2. The \<open>install_requires\<close> argument of the call is the one-element list
  \<open>['frida']\<close>; the keyword is given once, and none of the other keywords by which a
  manifest declares dependencies (\<open>extras_require\<close>, \<open>setup_requires\<close>,
  \<open>tests_require\<close>, \<open>requires\<close>) is passed.
\<close>

theorem install_requires_only_frida:
  "map (list_arg ''install_requires'') (setup_py find_packages tree) = [Some [''frida'']]
   \<and> map (map_option length \<circ> list_arg ''install_requires'') (setup_py find_packages tree)
       = [Some 1]
   \<and> map (filter (\<lambda>kv. fst kv = ''install_requires'')) (setup_py find_packages tree)
       = [[(''install_requires'', StrList [''frida''])]]
   \<and> map (\<lambda>K. (map_of K ''extras_require'', map_of K ''setup_requires'',
                 map_of K ''tests_require'', map_of K ''requires''))
         (setup_py find_packages tree)
       = [(None, None, None, None)]"
  by (simp add: setup_py_def setup_kwargs_def list_arg_def)

text \<open>
  Claim C3. The \<open>scripts\<close> argument of the call is the one-element list
  \<open>['scripts/vgpu-name.sh']\<close>; the keyword is given once and no \<open>entry_points\<close>
  argument is passed, so one executable is registered.
\<close>

theorem scripts_only_vgpu_name:
  "map (list_arg ''scripts'') (setup_py find_packages tree) = [Some [''scripts/vgpu-name.sh'']]
   \<and> map (map_option length \<circ> list_arg ''scripts'') (setup_py find_packages tree) = [Some 1]
   \<and> map (filter (\<lambda>kv. fst kv = ''scripts'')) (setup_py find_packages tree)
       = [[(''scripts'', StrList [''scripts/vgpu-name.sh''])]]
   \<and> map (\<lambda>K. map_of K ''entry_points'') (setup_py find_packages tree) = [None]"
  by (simp add: setup_py_def setup_kwargs_def list_arg_def)

text \<open>
  Claim C4. The version string passed to \<open>setup\<close> has the form \<open>major.minor.patch\<close>:
  cut at its dots it gives the three components \<open>1\<close>, \<open>0\<close>, \<open>0\<close>, each a non-empty
  run of decimal digits.
\<close>

theorem version_is_major_minor_patch:
  "map (map_option version_format \<circ> str_arg ''version'') (setup_py find_packages tree)
     = [Some True]
   \<and> map (map_option (split_on CHR ''.'') \<circ> str_arg ''version'') (setup_py find_packages tree)
     = [Some [''1'', ''0'', ''0'']]"
  by (simp add: setup_py_def setup_kwargs_def str_arg_def version_format_def
      decimal_component_def is_digit_def)

text \<open>
  Claim C5. The \<open>classifiers\<close> argument is a list of five tags: the MIT license
  classifier first, then the Python version classifiers for 3, 3.9, 3.10 and 3.11, in this
  order. Its first element is a license tag, the other four are Python version tags, and
  no element is of another kind.
\<close>

theorem classifiers_license_then_python:
  "map (list_arg ''classifiers'') (setup_py find_packages tree)
     = [Some (''License :: OSI Approved :: MIT License''
              # map (\<lambda>v. ''Programming Language :: Python :: '' @ v)
                    [''3'', ''3.9'', ''3.10'', ''3.11''])]
   \<and> map (map_option (map classifier_kind_of) \<circ> list_arg ''classifiers'')
         (setup_py find_packages tree)
     = [Some [LicenseTag, PythonVersionTag, PythonVersionTag, PythonVersionTag,
              PythonVersionTag]]"
  by (simp add: setup_py_def setup_kwargs_def list_arg_def classifier_kind_of_def)

text \<open>
  Claim C6. The \<open>packages\<close> argument is not a constant of the module: it is the list that
  \<open>find_packages\<close> returns for the project tree in which the module is evaluated, so it
  differs between a tree where discovery finds nothing and one where it finds a package.
\<close>

theorem packages_is_discovery_result:
  "map (list_arg ''packages'') (setup_py find_packages tree) = [Some (find_packages tree)]
   \<and> map (list_arg ''packages'') (setup_py (\<lambda>t. []) tree)
       \<noteq> map (list_arg ''packages'') (setup_py (\<lambda>t. [''vgpu_unlock'']) tree)"
  by (simp add: setup_py_def setup_kwargs_def list_arg_def)

text \<open>
  Claim C7. Apart from \<open>packages\<close>, the arguments of the call do not depend on the
  evaluation: any two evaluations, in whatever project trees and with whatever package
  discovery, pass the same values for \<open>name\<close>, \<open>version\<close>, \<open>description\<close>,
  \<open>author\<close>, \<open>scripts\<close>, \<open>install_requires\<close> and \<open>classifiers\<close>, and these
  values are the literals as they are written in the module, unchanged.
\<close>

theorem static_fields_deterministic:
  "map (filter (\<lambda>kv. fst kv \<noteq> ''packages'')) (setup_py find_packages tree)
     = map (filter (\<lambda>kv. fst kv \<noteq> ''packages'')) (setup_py find_packages' tree')
   \<and> map (filter (\<lambda>kv. fst kv \<noteq> ''packages'')) (setup_py find_packages tree)
     = [[(''name'', Str ''vgpu_unlock''),
         (''version'', Str ''1.0.0''),
         (''description'', Str ''vGPU unlock script for consumer GPUs''),
         (''author'', Str ''D''),
         (''scripts'', StrList [''scripts/vgpu-name.sh'']),
         (''install_requires'', StrList [''frida'']),
         (''classifiers'', StrList
            [''License :: OSI Approved :: MIT License'',
             ''Programming Language :: Python :: 3'',
             ''Programming Language :: Python :: 3.9'',
             ''Programming Language :: Python :: 3.10'',
             ''Programming Language :: Python :: 3.11''])]]"
  by (simp add: setup_py_def setup_kwargs_def)

text \<open>
  Claim C9. The only entry of \<open>install_requires\<close> is the bare distribution name
  \<open>frida\<close>: nothing follows the name, so it carries no version clause, extra or marker,
  and it admits every version, whatever the meaning of constraints is.
\<close>

theorem frida_unconstrained:
  "map (map_option (map (\<lambda>r. (requirement_name r, constraint_text r, admits sat r v)))
          \<circ> list_arg ''install_requires'')
       (setup_py find_packages tree)
   = [Some [(''frida'', [], True)]]"
  by (simp add: setup_py_def setup_kwargs_def list_arg_def requirement_name_def
      constraint_text_def admits_def name_char_def)

text \<open>
  Claim C10. The call passes the eight keyword arguments \<open>name\<close>, \<open>version\<close>,
  \<open>description\<close>, \<open>author\<close>, \<open>packages\<close>, \<open>scripts\<close>, \<open>install_requires\<close> and
  \<open>classifiers\<close>, each once, and no other; in particular it passes no
  \<open>python_requires\<close>.
\<close>

theorem setup_keywords_exactly_eight:
  "map (map fst) (setup_py find_packages tree)
     = [[''name'', ''version'', ''description'', ''author'', ''packages'', ''scripts'',
         ''install_requires'', ''classifiers'']]
   \<and> map (length \<circ> remdups \<circ> map fst) (setup_py find_packages tree) = [8]
   \<and> map (\<lambda>K. map_of K ''python_requires'') (setup_py find_packages tree) = [None]"
  by (simp add: setup_py_def setup_kwargs_def)

end
